theory Spec2Isabelle
  imports Main
begin

section \<open>Python values and errors\<close>

text \<open>
  The values that flow through \<^verbatim>\<open>utils/storage.py\<close> and the bite-risk functions of
  \<^verbatim>\<open>pages/ai_detection.py\<close>. A \<^verbatim>\<open>dict\<close> is an association list in insertion order;
  a well-formed one has pairwise distinct keys. \<open>PObj s\<close> stands for a hashable object
  that is not of a JSON type (a \<^verbatim>\<open>datetime\<close>, say), carried by the text \<^verbatim>\<open>str\<close> gives
  for it. A \<open>string\<close> holds the UTF-8 bytes of a Python \<^verbatim>\<open>str\<close>; a surrogate code
  point, which a \<^verbatim>\<open>str\<close> may hold, is written as the three bytes that the error handler
  \<^verbatim>\<open>surrogatepass\<close> gives it. A finite \<^verbatim>\<open>float\<close> is named by the text \<^verbatim>\<open>repr\<close> gives for
  it, which determines it.
\<close>

datatype pyfloat = Float_finite string | Float_inf | Float_neg_inf | Float_nan

datatype pyval =
    PNone
  | PBool bool
  | PInt int
  | PFloat pyfloat
  | PStr string
  | PList "pyval list"
  | PTuple "pyval list"
  | PDict "(pyval \<times> pyval) list"
  | PObj string

datatype py_error = TypeError | JSONDecodeError | OSError

text \<open>Lists and dicts are unhashable; a tuple is hashable when its elements are.\<close>

fun hashable :: "pyval \<Rightarrow> bool" where
  "hashable (PList xs) = False"
| "hashable (PDict kvs) = False"
| "hashable (PTuple xs) = list_all hashable xs"
| "hashable v = True"

text \<open>
  \<^verbatim>\<open>d.get(k, dflt)\<close> on a dict whose keys are all \<^verbatim>\<open>str\<close>: an unhashable key raises
  \<^verbatim>\<open>TypeError\<close>, a key that is no \<^verbatim>\<open>str\<close> is not found.
\<close>

fun dict_get :: "(string \<times> 'a) list \<Rightarrow> pyval \<Rightarrow> 'a \<Rightarrow> py_error + 'a" where
  "dict_get d (PStr k) dflt = Inr (case map_of d k of Some x \<Rightarrow> x | None \<Rightarrow> dflt)"
| "dict_get d k dflt = (if hashable k then Inr dflt else Inl TypeError)"


section \<open>Bite-risk scoring (pages/ai_detection.py)\<close>

text \<open>The table \<^verbatim>\<open>score_map\<close> of \<^verbatim>\<open>calculate_bite_risk_score\<close>.\<close>

definition score_map :: "(string \<times> (string \<times> int) list) list" where
  "score_map =
    [(''aggression'',
        [(''Friendly/Calm'', 0), (''Neutral/Cautious'', 5), (''Defensive'', 10),
         (''Aggressive/Growling'', 20), (''Attacking/Lunging'', 30)]),
     (''body_language'',
        [(''Relaxed (wagging tail, soft ears)'', 0), (''Alert (ears up, attentive)'', 5),
         (''Tense (stiff body, raised hackles)'', 15), (''Cowering/Fearful'', 10),
         (''Showing teeth/Snarling'', 25)]),
     (''eye_contact'',
        [(''Soft/Avoidant'', 0), (''Normal'', 3), (''Direct stare'', 10),
         (''Fixed stare with tension'', 20)]),
     (''territorial'',
        [(''Not territorial'', 0), (''Mild (barking)'', 5), (''Moderate (blocking path)'', 10),
         (''Highly territorial (charging)'', 20)]),
     (''past_behavior'',
        [(''Never aggressive'', 0), (''Rare incidents'', 10), (''Multiple incidents'', 20),
         (''Frequent attacks'', 30)]),
     (''approach'',
        [(''Friendly approach'', 0), (''Cautious but friendly'', 3),
         (''Avoidant/Backing away'', 8), (''Warning signs (barking/growling)'', 15),
         (''Charging/Lunging'', 25)]),
     (''food_guarding'',
        [(''No guarding'', 0), (''Mild (tense when eating)'', 5),
         (''Moderate (growls near food)'', 12), (''Severe (snaps/bites near food)'', 20)]),
     (''space'',
        [(''Comfortable with proximity'', 0), (''Prefers distance'', 3),
         (''Shows discomfort when approached'', 10), (''Actively defends space'', 18)]),
     (''health'',
        [(''Appears healthy'', 0), (''Minor issues (limping)'', 5), (''Visible injuries'', 10),
         (''Signs of rabies/severe illness'', 25)]),
     (''pack'',
        [(''Alone'', 5), (''With one other dog'', 3), (''In small pack (2-3)'', 8),
         (''Large pack (4+)'', 15)])]"

text \<open>
  A response mapping is a dict from question keys to the selected answers. The element
  \<^verbatim>\<open>score_map.get(key, {}).get(value, 0)\<close> of the generator:
\<close>

type_synonym responses = "(string \<times> pyval) list"

definition question_table :: "string \<Rightarrow> (string \<times> int) list" where
  "question_table key = (case map_of score_map key of Some t \<Rightarrow> t | None \<Rightarrow> [])"

definition answer_weight :: "string \<Rightarrow> pyval \<Rightarrow> py_error + int" where
  "answer_weight key val = dict_get (question_table key) val 0"

text \<open>
  \<^verbatim>\<open>sum(... for key, value in responses.items())\<close>: the accumulator starts at 0 and
  the first element that raises ends the sum.
\<close>

fun sum_items :: "int \<Rightarrow> responses \<Rightarrow> py_error + int" where
  "sum_items acc [] = Inr acc"
| "sum_items acc ((key, val) # rest) =
     (case answer_weight key val of
        Inl e \<Rightarrow> Inl e
      | Inr w \<Rightarrow> sum_items (acc + w) rest)"

definition calculate_bite_risk_score :: "responses \<Rightarrow> py_error + (int \<times> string)" where
  "calculate_bite_risk_score rs =
     (case sum_items 0 rs of
        Inl e \<Rightarrow> Inl e
      | Inr total_score \<Rightarrow>
          Inr (total_score,
               if total_score \<le> 20 then ''Low Risk''
               else if total_score \<le> 50 then ''Moderate Risk''
               else if total_score \<le> 80 then ''High Risk''
               else ''Critical Risk''))"

text \<open>
  \<^verbatim>\<open>responses.get(k)\<close> gives \<^verbatim>\<open>None\<close> for a missing key, and \<^verbatim>\<open>x in [s1, s2]\<close>
  compares \<^verbatim>\<open>x\<close> with each string by equality. Neither raises.
\<close>

definition responses_get :: "responses \<Rightarrow> string \<Rightarrow> pyval" where
  "responses_get rs k = (case map_of rs k of Some v \<Rightarrow> v | None \<Rightarrow> PNone)"

definition is_in :: "pyval \<Rightarrow> string list \<Rightarrow> bool" where
  "is_in v opts = list_ex (\<lambda>s. v = PStr s) opts"

text \<open>The six advisory texts; each starts with the UTF-8 bytes of its emoji.\<close>

definition rec_aggression :: string where
  "rec_aggression =
     [CHR 0xF0, CHR 0x9F, CHR 0x9A, CHR 0xA8] @ '' Maintain safe distance - Do not approach''"

definition rec_territorial :: string where
  "rec_territorial =
     [CHR 0xF0, CHR 0x9F, CHR 0x9A, CHR 0xB6]
     @ '' Avoid entering the dog's territory - Choose alternate route''"

definition rec_approach :: string where
  "rec_approach = [CHR 0xE2, CHR 0x9B, CHR 0x94] @ '' Do not attempt to pet or interact''"

definition rec_health :: string where
  "rec_health =
     [CHR 0xE2, CHR 0x9A, CHR 0xA0, CHR 0xEF, CHR 0xB8, CHR 0x8F]
     @ '' RABIES RISK - Contact health department immediately''"

definition rec_pack :: string where
  "rec_pack =
     [CHR 0xF0, CHR 0x9F, CHR 0x91, CHR 0xA5]
     @ '' Pack behavior increases unpredictability - Extra caution needed''"

definition rec_food_guarding :: string where
  "rec_food_guarding =
     [CHR 0xF0, CHR 0x9F, CHR 0x8D, CHR 0x96]
     @ '' Never approach when dog is eating or near food''"

text \<open>\<^verbatim>\<open>generate_safety_recommendations\<close>: six tests in sequence, each appending to the list.\<close>

definition generate_safety_recommendations :: "responses \<Rightarrow> string list" where
  "generate_safety_recommendations rs =
     (let recommendations = [];
          recommendations =
            (if is_in (responses_get rs ''aggression'')
                  [''Aggressive/Growling'', ''Attacking/Lunging'']
             then recommendations @ [rec_aggression] else recommendations);
          recommendations =
            (if is_in (responses_get rs ''territorial'')
                  [''Moderate (blocking path)'', ''Highly territorial (charging)'']
             then recommendations @ [rec_territorial] else recommendations);
          recommendations =
            (if is_in (responses_get rs ''approach'')
                  [''Warning signs (barking/growling)'', ''Charging/Lunging'']
             then recommendations @ [rec_approach] else recommendations);
          recommendations =
            (if responses_get rs ''health'' = PStr ''Signs of rabies/severe illness''
             then recommendations @ [rec_health] else recommendations);
          recommendations =
            (if is_in (responses_get rs ''pack'') [''In small pack (2-3)'', ''Large pack (4+)'']
             then recommendations @ [rec_pack] else recommendations);
          recommendations =
            (if is_in (responses_get rs ''food_guarding'')
                  [''Moderate (growls near food)'', ''Severe (snaps/bites near food)'']
             then recommendations @ [rec_food_guarding] else recommendations)
      in recommendations)"

text \<open>
  The caller (\<^verbatim>\<open>render\<close>, "Collect all responses") builds the mapping from the ten
  select boxes, in this key order.
\<close>

type_synonym selection = string

definition collect_responses ::
  "selection \<Rightarrow> selection \<Rightarrow> selection \<Rightarrow> selection \<Rightarrow> selection \<Rightarrow>
   selection \<Rightarrow> selection \<Rightarrow> selection \<Rightarrow> selection \<Rightarrow> selection \<Rightarrow> responses" where
  "collect_responses q1 q2 q3 q4 q5 q6 q7 q8 q9 q10 =
     [(''aggression'', PStr q1), (''body_language'', PStr q2), (''eye_contact'', PStr q3),
      (''territorial'', PStr q4), (''past_behavior'', PStr q5), (''approach'', PStr q6),
      (''food_guarding'', PStr q7), (''space'', PStr q8), (''health'', PStr q9),
      (''pack'', PStr q10)]"


section \<open>Document store (utils/storage.py)\<close>

text \<open>
  A JSON document, as \<^verbatim>\<open>json.dump\<close> writes it and \<^verbatim>\<open>json.load\<close> reads it; the numbers
  include the constants \<^verbatim>\<open>NaN\<close>, \<^verbatim>\<open>Infinity\<close> and \<^verbatim>\<open>-Infinity\<close> of Python's codec.
  The text of a file is not modelled character by character: a file either holds the text
  of a document, or text that cannot be decoded and parsed, or cannot be opened at all.
  Limits of resources (recursion depth, memory, space on the disk) are left out.
\<close>

datatype json =
    JNull
  | JBool bool
  | JInt int
  | JFloat pyfloat
  | JStr string
  | JArr "json list"
  | JObj "(string \<times> json) list"

datatype file_content = Json_text json | Invalid_text | No_access

text \<open>
  What \<^verbatim>\<open>os.stat\<close> finds at a path: nothing, a file, or an error that \<^verbatim>\<open>Path.exists\<close>
  does not swallow (a name longer than the file system allows, a directory that may not
  be searched).
\<close>

datatype path_state = Missing | Present file_content | Stat_error

type_synonym filesystem = "string \<Rightarrow> path_state"

definition no_files :: filesystem where
  "no_files = (\<lambda>p. Missing)"

text \<open>\<^verbatim>\<open>file.exists()\<close>.\<close>

definition path_exists :: "filesystem \<Rightarrow> string \<Rightarrow> py_error + bool" where
  "path_exists fs p =
     (case fs p of Missing \<Rightarrow> Inr False | Present f \<Rightarrow> Inr True | Stat_error \<Rightarrow> Inl OSError)"

text \<open>\<^verbatim>\<open>DATA_DIR / f"{key}.json"\<close>, for a key that is a relative name.\<close>

definition file_path :: "string \<Rightarrow> string" where
  "file_path key = ''data/'' @ key @ ''.json''"

text \<open>The decimal text of an \<^verbatim>\<open>int\<close>, which the encoder uses for an \<^verbatim>\<open>int\<close> key.\<close>

fun digits :: "nat \<Rightarrow> string" where
  "digits n =
     (if n < 10 then [''0123456789'' ! n]
      else digits (n div 10) @ [''0123456789'' ! (n mod 10)])"

definition int_repr :: "int \<Rightarrow> string" where
  "int_repr i = (if i < 0 then CHR ''-'' # digits (nat (- i)) else digits (nat i))"

text \<open>The text of a \<^verbatim>\<open>float\<close>, as the encoder writes it.\<close>

fun float_repr :: "pyfloat \<Rightarrow> string" where
  "float_repr (Float_finite s) = s"
| "float_repr Float_inf = ''Infinity''"
| "float_repr Float_neg_inf = ''-Infinity''"
| "float_repr Float_nan = ''NaN''"

text \<open>
  The encoder escapes every character outside ASCII as \<^verbatim>\<open>\uXXXX\<close>, a character beyond
  the basic plane as two surrogates, and the decoder joins a high surrogate escape that
  is followed by a low one into one character. So a high and a low surrogate that stand
  next to each other in a \<^verbatim>\<open>str\<close> are read back as the one character they encode:
  \<open>join_surrogates\<close> is what a string becomes by being written and parsed.
\<close>

definition byte :: "nat \<Rightarrow> char" where
  "byte n =
     Char (odd n) (odd (n div 2)) (odd (n div 4)) (odd (n div 8))
          (odd (n div 16)) (odd (n div 32)) (odd (n div 64)) (odd (n div 128))"

definition surrogate_pair :: "char \<Rightarrow> char \<Rightarrow> char \<Rightarrow> char \<Rightarrow> char \<Rightarrow> char \<Rightarrow> bool" where
  "surrogate_pair a b1 b2 c b3 b4 =
     (a = CHR 0xED \<and> (0xA0::nat) \<le> of_char b1 \<and> (of_char b1 :: nat) \<le> 0xAF \<and>
      (0x80::nat) \<le> of_char b2 \<and> (of_char b2 :: nat) \<le> 0xBF \<and>
      c = CHR 0xED \<and> (0xB0::nat) \<le> of_char b3 \<and> (of_char b3 :: nat) \<le> 0xBF \<and>
      (0x80::nat) \<le> of_char b4 \<and> (of_char b4 :: nat) \<le> 0xBF)"

definition joined :: "char \<Rightarrow> char \<Rightarrow> char \<Rightarrow> char \<Rightarrow> string" where
  "joined b1 b2 b3 b4 =
     (let hi = 0xD000 + (of_char b1 - 0x80) * 64 + (of_char b2 - 0x80);
          lo = 0xD000 + (of_char b3 - 0x80) * 64 + (of_char b4 - 0x80);
          cp = 0x10000 + (hi - 0xD800) * 0x400 + (lo - 0xDC00) :: nat
      in [byte (0xF0 + cp div 0x40000), byte (0x80 + (cp div 0x1000) mod 64),
          byte (0x80 + (cp div 64) mod 64), byte (0x80 + cp mod 64)])"

fun join_surrogates :: "string \<Rightarrow> string" where
  "join_surrogates (a # b1 # b2 # c # b3 # b4 # rest) =
     (if surrogate_pair a b1 b2 c b3 b4 then joined b1 b2 b3 b4 @ join_surrogates rest
      else a # join_surrogates (b1 # b2 # c # b3 # b4 # rest))"
| "join_surrogates (a # rest) = a # join_surrogates rest"
| "join_surrogates [] = []"

text \<open>
  The encoder turns a key that is \<^verbatim>\<open>str\<close>, \<^verbatim>\<open>float\<close>, \<^verbatim>\<open>bool\<close>, \<^verbatim>\<open>None\<close> or \<^verbatim>\<open>int\<close>
  into a string and raises \<^verbatim>\<open>TypeError\<close> on any other key; \<^verbatim>\<open>default=str\<close> is not
  applied to keys.
\<close>

fun key_to_str :: "pyval \<Rightarrow> py_error + string" where
  "key_to_str (PStr s) = Inr s"
| "key_to_str (PFloat f) = Inr (float_repr f)"
| "key_to_str (PBool b) = Inr (if b then ''true'' else ''false'')"
| "key_to_str PNone = Inr ''null''"
| "key_to_str (PInt i) = Inr (int_repr i)"
| "key_to_str k = Inl TypeError"

text \<open>
  \<^verbatim>\<open>json.dump(data, f, indent=2, default=str)\<close>: lists and tuples become arrays, dicts
  become objects, and a value of no JSON type is replaced by its \<^verbatim>\<open>str\<close>.
\<close>

fun to_json :: "pyval \<Rightarrow> py_error + json"
  and to_json_list :: "pyval list \<Rightarrow> py_error + json list"
  and to_json_items :: "(pyval \<times> pyval) list \<Rightarrow> py_error + (string \<times> json) list" where
  "to_json PNone = Inr JNull"
| "to_json (PBool b) = Inr (JBool b)"
| "to_json (PInt i) = Inr (JInt i)"
| "to_json (PFloat f) = Inr (JFloat f)"
| "to_json (PStr s) = Inr (JStr (join_surrogates s))"
| "to_json (PList xs) = (case to_json_list xs of Inl e \<Rightarrow> Inl e | Inr js \<Rightarrow> Inr (JArr js))"
| "to_json (PTuple xs) = (case to_json_list xs of Inl e \<Rightarrow> Inl e | Inr js \<Rightarrow> Inr (JArr js))"
| "to_json (PDict kvs) = (case to_json_items kvs of Inl e \<Rightarrow> Inl e | Inr ms \<Rightarrow> Inr (JObj ms))"
| "to_json (PObj s) = Inr (JStr (join_surrogates s))"
| "to_json_list [] = Inr []"
| "to_json_list (x # xs) =
     (case to_json x of
        Inl e \<Rightarrow> Inl e
      | Inr j \<Rightarrow> (case to_json_list xs of Inl e \<Rightarrow> Inl e | Inr js \<Rightarrow> Inr (j # js)))"
| "to_json_items [] = Inr []"
| "to_json_items ((k, v) # kvs) =
     (case key_to_str k of
        Inl e \<Rightarrow> Inl e
      | Inr s \<Rightarrow>
          (case to_json v of
             Inl e \<Rightarrow> Inl e
           | Inr j \<Rightarrow>
               (case to_json_items kvs of
                  Inl e \<Rightarrow> Inl e
                | Inr ms \<Rightarrow> Inr ((join_surrogates s, j) # ms))))"

text \<open>
  \<^verbatim>\<open>d[k] = v\<close> keeps the position of a key that is already there. \<^verbatim>\<open>json.load\<close> builds
  each object by inserting its members in order, so a repeated name keeps its last value.
\<close>

fun dict_setitem :: "('k \<times> 'v) list \<Rightarrow> 'k \<Rightarrow> 'v \<Rightarrow> ('k \<times> 'v) list" where
  "dict_setitem [] k v = [(k, v)]"
| "dict_setitem ((k', v') # d) k v =
     (if k' = k then (k', v) # d else (k', v') # dict_setitem d k v)"

fun dict_of_pairs :: "('k \<times> 'v) list \<Rightarrow> ('k \<times> 'v) list \<Rightarrow> ('k \<times> 'v) list" where
  "dict_of_pairs d [] = d"
| "dict_of_pairs d ((k, v) # ps) = dict_of_pairs (dict_setitem d k v) ps"

fun of_json :: "json \<Rightarrow> pyval"
  and of_json_list :: "json list \<Rightarrow> pyval list"
  and of_json_members :: "(string \<times> json) list \<Rightarrow> (pyval \<times> pyval) list" where
  "of_json JNull = PNone"
| "of_json (JBool b) = PBool b"
| "of_json (JInt i) = PInt i"
| "of_json (JFloat f) = PFloat f"
| "of_json (JStr s) = PStr s"
| "of_json (JArr js) = PList (of_json_list js)"
| "of_json (JObj ms) = PDict (dict_of_pairs [] (of_json_members ms))"
| "of_json_list [] = []"
| "of_json_list (j # js) = of_json j # of_json_list js"
| "of_json_members [] = []"
| "of_json_members ((s, j) # ms) = (PStr s, of_json j) # of_json_members ms"

text \<open>\<^verbatim>\<open>open(file, 'r')\<close> followed by \<^verbatim>\<open>json.load(f)\<close>, on a file and on a path.\<close>

fun load_file :: "file_content \<Rightarrow> py_error + pyval" where
  "load_file (Json_text j) = Inr (of_json j)"
| "load_file Invalid_text = Inl JSONDecodeError"
| "load_file No_access = Inl OSError"

definition open_and_load :: "filesystem \<Rightarrow> string \<Rightarrow> py_error + pyval" where
  "open_and_load fs p =
     (case fs p of Present f \<Rightarrow> load_file f | Missing \<Rightarrow> Inl OSError | Stat_error \<Rightarrow> Inl OSError)"

text \<open>
  \<^verbatim>\<open>isinstance(data, type(default))\<close>. \<^verbatim>\<open>bool\<close> is a subclass of \<^verbatim>\<open>int\<close>; the classes
  behind \<open>PObj\<close> are taken to be unrelated to the JSON types.
\<close>

datatype pytype = TNone | TBool | TInt | TFloat | TStr | TList | TTuple | TDict | TOther

fun type_of :: "pyval \<Rightarrow> pytype" where
  "type_of PNone = TNone"
| "type_of (PBool b) = TBool"
| "type_of (PInt i) = TInt"
| "type_of (PFloat f) = TFloat"
| "type_of (PStr s) = TStr"
| "type_of (PList xs) = TList"
| "type_of (PTuple xs) = TTuple"
| "type_of (PDict kvs) = TDict"
| "type_of (PObj s) = TOther"

definition isinstance :: "pyval \<Rightarrow> pytype \<Rightarrow> bool" where
  "isinstance v t = (type_of v = t \<or> (type_of v = TBool \<and> t = TInt))"

text \<open>
  \<^verbatim>\<open>storage.read(key, default=None)\<close>. The existence test stands before the \<^verbatim>\<open>try\<close>, so
  its error reaches the caller; the bare \<^verbatim>\<open>except\<close> turns every error of opening and
  parsing into the fallback value. \<open>dflt\<close> is the parameter \<^verbatim>\<open>default\<close>.
\<close>

definition read :: "filesystem \<Rightarrow> string \<Rightarrow> pyval \<Rightarrow> py_error + pyval" where
  "read fs key dflt =
     (case path_exists fs (file_path key) of
        Inl e \<Rightarrow> Inl e
      | Inr found \<Rightarrow>
          (if found then
             (case open_and_load fs (file_path key) of
                Inr data \<Rightarrow>
                  (if dflt = PNone
                   then Inr (if isinstance data TList then data else PList [])
                   else Inr (if isinstance data (type_of dflt) then data else dflt))
              | Inl e \<Rightarrow> Inr (if dflt \<noteq> PNone then dflt else PList []))
           else Inr (if dflt \<noteq> PNone then dflt else PList [])))"



section \<open>Notions of the specification\<close>

text \<open>
  The weight the table assigns to a (question, option) pair; a pair that is not in the
  table has weight 0.
\<close>

definition table_weight :: "string \<Rightarrow> pyval \<Rightarrow> int" where
  "table_weight q a =
     (case a of
        PStr opt \<Rightarrow>
          (case map_of score_map q of
             Some t \<Rightarrow> (case map_of t opt of Some w \<Rightarrow> w | None \<Rightarrow> 0)
           | None \<Rightarrow> 0)
      | _ \<Rightarrow> 0)"

text \<open>The answer is an option listed in the table of the question.\<close>

definition in_table :: "string \<Rightarrow> pyval \<Rightarrow> bool" where
  "in_table q a =
     (case a of PStr opt \<Rightarrow> map_of (question_table q) opt \<noteq> None | _ \<Rightarrow> False)"

text \<open>Every answer of the mapping can be used as a dict key (an option string can).\<close>

definition hashable_answers :: "responses \<Rightarrow> bool" where
  "hashable_answers rs = list_all (\<lambda>(q, a). hashable a) rs"

text \<open>The four buckets with their inclusive upper bounds, and their rank.\<close>

definition level_of :: "int \<Rightarrow> string" where
  "level_of s =
     (if s \<le> 20 then ''Low Risk''
      else if s \<le> 50 then ''Moderate Risk''
      else if s \<le> 80 then ''High Risk''
      else ''Critical Risk'')"

definition level_rank :: "string \<Rightarrow> nat" where
  "level_rank l =
     (if l = ''Low Risk'' then 0 else if l = ''Moderate Risk'' then 1
      else if l = ''High Risk'' then 2 else 3)"

text \<open>The largest weight of a question's table.\<close>

definition max_weight :: "(string \<times> int) list \<Rightarrow> int" where
  "max_weight t = fold max (map snd t) 0"

definition question_bound :: "string \<Rightarrow> int" where
  "question_bound q = max_weight (question_table q)"

text \<open>
  The trigger rules in their fixed order: the question, the options that trigger the
  rule, and its advisory text.
\<close>

definition trigger_rules :: "(string \<times> string list \<times> string) list" where
  "trigger_rules =
     [(''aggression'', [''Aggressive/Growling'', ''Attacking/Lunging''], rec_aggression),
      (''territorial'', [''Moderate (blocking path)'', ''Highly territorial (charging)''],
         rec_territorial),
      (''approach'', [''Warning signs (barking/growling)'', ''Charging/Lunging''], rec_approach),
      (''health'', [''Signs of rabies/severe illness''], rec_health),
      (''pack'', [''In small pack (2-3)'', ''Large pack (4+)''], rec_pack),
      (''food_guarding'', [''Moderate (growls near food)'', ''Severe (snaps/bites near food)''],
         rec_food_guarding)]"

definition rule_fires :: "responses \<Rightarrow> string \<times> string list \<times> string \<Rightarrow> bool" where
  "rule_fires rs rule =
     (case rule of (q, triggers, advisory) \<Rightarrow> is_in (responses_get rs q) triggers)"

definition fired_advisories :: "responses \<Rightarrow> string list" where
  "fired_advisories rs =
     map (\<lambda>(q, triggers, advisory). advisory) (filter (rule_fires rs) trigger_rules)"

text \<open>
  The option of least weight in a table (the first one, among equals), and the mapping
  that answers every question of the table with it.
\<close>

fun lowest_from :: "string \<times> int \<Rightarrow> (string \<times> int) list \<Rightarrow> string \<times> int" where
  "lowest_from best [] = best"
| "lowest_from best (x # xs) = lowest_from (if snd x < snd best then x else best) xs"

definition lowest_weighted_responses :: responses where
  "lowest_weighted_responses =
     concat (map (\<lambda>(q, t). case t of [] \<Rightarrow> [] | x # xs \<Rightarrow> [(q, PStr (fst (lowest_from x xs)))])
               score_map)"

text \<open>The scenario of the specification's end-to-end example.\<close>

definition end_to_end :: responses where
  "end_to_end =
     collect_responses ''Attacking/Lunging'' ''Showing teeth/Snarling''
       ''Fixed stare with tension'' ''Highly territorial (charging)'' ''Frequent attacks''
       ''Charging/Lunging'' ''Severe (snaps/bites near food)'' ''Actively defends space''
       ''Appears healthy'' ''Alone''"




section \<open>The score as a sum over the table\<close>

lemma answer_weight_hashable: "hashable a \<Longrightarrow> answer_weight q a = Inr (table_weight q a)"
  by (cases a)
    (simp_all add: answer_weight_def table_weight_def question_table_def split: option.splits)

lemma answer_weight_unhashable: "\<not> hashable a \<Longrightarrow> answer_weight q a = Inl TypeError"
  by (cases a) (simp_all add: answer_weight_def)

text \<open>An answer that is a list cannot be looked up: the scoring raises.\<close>

lemma unhashable_answer_raises:
  "calculate_bite_risk_score [(''aggression'', PList [])] = Inl TypeError"
  by (simp add: calculate_bite_risk_score_def answer_weight_unhashable)

lemma sum_items_hashable:
  "hashable_answers rs \<Longrightarrow>
   sum_items acc rs = Inr (acc + (\<Sum>(q, a)\<leftarrow>rs. table_weight q a))"
proof (induction rs arbitrary: acc)
  case Nil
  show ?case by simp
next
  case (Cons x rs)
  obtain q a where x: "x = (q, a)" by (cases x)
  from Cons.prems have h: "hashable a" and r: "hashable_answers rs"
    by (simp_all add: hashable_answers_def x)
  show ?case
    by (simp add: x answer_weight_hashable [OF h] Cons.IH [OF r] add.assoc)
qed

lemma calculate_hashable:
  "hashable_answers rs \<Longrightarrow>
   calculate_bite_risk_score rs =
     Inr ((\<Sum>(q, a)\<leftarrow>rs. table_weight q a), level_of (\<Sum>(q, a)\<leftarrow>rs. table_weight q a))"
  by (simp add: calculate_bite_risk_score_def sum_items_hashable level_of_def)

lemma level_of_cases:
  "(level_of s = ''Low Risk'' \<longleftrightarrow> s \<le> 20) \<and>
   (level_of s = ''Moderate Risk'' \<longleftrightarrow> 20 < s \<and> s \<le> 50) \<and>
   (level_of s = ''High Risk'' \<longleftrightarrow> 50 < s \<and> s \<le> 80) \<and>
   (level_of s = ''Critical Risk'' \<longleftrightarrow> 80 < s)"
  by (simp add: level_of_def)

lemma level_rank_mono: "s \<le> s' \<Longrightarrow> level_rank (level_of s) \<le> level_rank (level_of s')"
  by (simp add: level_of_def level_rank_def)

lemma score_map_weights_range:
  "list_all (\<lambda>(q, t). list_all (\<lambda>(opt, w). 0 \<le> w \<and> w \<le> 30) t) score_map"
  by (simp add: score_map_def)

lemma table_weight_PStr:
  "table_weight q (PStr opt) =
     (case map_of (question_table q) opt of Some w \<Rightarrow> w | None \<Rightarrow> 0)"
  by (simp add: table_weight_def question_table_def split: option.splits)

lemma table_weight_not_str: "\<forall>opt. a \<noteq> PStr opt \<Longrightarrow> table_weight q a = 0"
  by (cases a) (simp_all add: table_weight_def)

lemma question_table_member:
  assumes "map_of (question_table q) opt = Some w"
  shows "\<exists>t. (q, t) \<in> set score_map \<and> (opt, w) \<in> set t"
proof (cases "map_of score_map q")
  case None
  with assms show ?thesis by (simp add: question_table_def)
next
  case (Some t)
  then have "(q, t) \<in> set score_map" by (rule map_of_SomeD)
  moreover have "(opt, w) \<in> set t"
    using assms Some by (simp add: question_table_def map_of_SomeD)
  ultimately show ?thesis by blast
qed

lemma table_weight_range: "0 \<le> table_weight q a \<and> table_weight q a \<le> 30"
proof (cases "\<exists>opt. a = PStr opt")
  case False
  then show ?thesis by (simp add: table_weight_not_str)
next
  case True
  then obtain opt where a: "a = PStr opt" by blast
  show ?thesis
  proof (cases "map_of (question_table q) opt")
    case None
    then show ?thesis by (simp add: a table_weight_PStr)
  next
    case (Some w)
    then obtain t where "(q, t) \<in> set score_map" and "(opt, w) \<in> set t"
      using question_table_member by blast
    with score_map_weights_range have "0 \<le> w \<and> w \<le> 30"
      unfolding list_all_iff by fastforce
    then show ?thesis by (simp add: a table_weight_PStr Some)
  qed
qed

lemma sum_table_weight_nonneg: "0 \<le> (\<Sum>(q, a)\<leftarrow>rs. table_weight q a)"
  by (induction rs) (auto simp: table_weight_range)

lemma lowest_weighted_responses_eq:
  "lowest_weighted_responses =
     collect_responses ''Friendly/Calm'' ''Relaxed (wagging tail, soft ears)'' ''Soft/Avoidant''
       ''Not territorial'' ''Never aggressive'' ''Friendly approach'' ''No guarding''
       ''Comfortable with proximity'' ''Appears healthy'' ''With one other dog''"
  by (simp add: lowest_weighted_responses_def score_map_def collect_responses_def)

lemma lowest_hashable: "hashable_answers lowest_weighted_responses"
  by (simp add: lowest_weighted_responses_eq collect_responses_def hashable_answers_def)

lemma lowest_score: "calculate_bite_risk_score lowest_weighted_responses = Inr (3, ''Low Risk'')"
  by (simp add: lowest_weighted_responses_eq collect_responses_def calculate_bite_risk_score_def
      answer_weight_def question_table_def score_map_def)

lemma lowest_recommendations: "generate_safety_recommendations lowest_weighted_responses = []"
  by (simp add: lowest_weighted_responses_eq collect_responses_def
      generate_safety_recommendations_def responses_get_def is_in_def)

lemma end_to_end_hashable: "hashable_answers end_to_end"
  by (simp add: end_to_end_def collect_responses_def hashable_answers_def)

lemma end_to_end_score: "calculate_bite_risk_score end_to_end = Inr (193, ''Critical Risk'')"
  by (simp add: end_to_end_def collect_responses_def calculate_bite_risk_score_def
      answer_weight_def question_table_def score_map_def)

lemma end_to_end_recommendations:
  "generate_safety_recommendations end_to_end =
     [rec_aggression, rec_territorial, rec_approach, rec_food_guarding]"
  by (simp add: end_to_end_def collect_responses_def generate_safety_recommendations_def
      responses_get_def is_in_def)


section \<open>Risk levels\<close>

text \<open>
  Claim C1. For every response mapping \<^verbatim>\<open>calculate_bite_risk_score\<close> returns a score and
  exactly one of four levels: "Low Risk" exactly when the score is at most 20,
  "Moderate Risk" exactly when it is in (20, 50], "High Risk" exactly when it is in
  (50, 80], and "Critical Risk" exactly when it is above 80.
\<close>

theorem calculate_score_buckets:
  assumes "hashable_answers rs"
  shows "\<exists>score level. calculate_bite_risk_score rs = Inr (score, level) \<and>
           (level = ''Low Risk'' \<longleftrightarrow> score \<le> 20) \<and>
           (level = ''Moderate Risk'' \<longleftrightarrow> 20 < score \<and> score \<le> 50) \<and>
           (level = ''High Risk'' \<longleftrightarrow> 50 < score \<and> score \<le> 80) \<and>
           (level = ''Critical Risk'' \<longleftrightarrow> 80 < score)"
  using calculate_hashable [OF assms] level_of_cases by simp

text \<open>
  Six mappings of the questionnaire with the totals 20, 21, 50, 51, 80 and 81 fall on the
  two sides of each threshold.
\<close>

theorem calculate_score_buckets_witness:
  "hashable_answers
     (collect_responses ''Friendly/Calm'' ''Tense (stiff body, raised hackles)'' ''Soft/Avoidant''
        ''Not territorial'' ''Never aggressive'' ''Friendly approach'' ''No guarding''
        ''Comfortable with proximity'' ''Appears healthy'' ''Alone'') \<and>
   calculate_bite_risk_score
     (collect_responses ''Friendly/Calm'' ''Tense (stiff body, raised hackles)'' ''Soft/Avoidant''
        ''Not territorial'' ''Never aggressive'' ''Friendly approach'' ''No guarding''
        ''Comfortable with proximity'' ''Appears healthy'' ''Alone'')
     = Inr (20, ''Low Risk'') \<and>
   calculate_bite_risk_score
     (collect_responses ''Friendly/Calm'' ''Relaxed (wagging tail, soft ears)'' ''Soft/Avoidant''
        ''Not territorial'' ''Never aggressive'' ''Friendly approach'' ''No guarding''
        ''Actively defends space'' ''Appears healthy'' ''With one other dog'')
     = Inr (21, ''Moderate Risk'') \<and>
   calculate_bite_risk_score
     (collect_responses ''Attacking/Lunging'' ''Tense (stiff body, raised hackles)''
        ''Soft/Avoidant'' ''Not territorial'' ''Never aggressive'' ''Friendly approach''
        ''No guarding'' ''Comfortable with proximity'' ''Appears healthy'' ''Alone'')
     = Inr (50, ''Moderate Risk'') \<and>
   calculate_bite_risk_score
     (collect_responses ''Attacking/Lunging'' ''Relaxed (wagging tail, soft ears)''
        ''Soft/Avoidant'' ''Not territorial'' ''Never aggressive'' ''Friendly approach''
        ''No guarding'' ''Actively defends space'' ''Appears healthy'' ''With one other dog'')
     = Inr (51, ''High Risk'') \<and>
   calculate_bite_risk_score
     (collect_responses ''Attacking/Lunging'' ''Tense (stiff body, raised hackles)''
        ''Soft/Avoidant'' ''Not territorial'' ''Frequent attacks'' ''Friendly approach''
        ''No guarding'' ''Comfortable with proximity'' ''Appears healthy'' ''Alone'')
     = Inr (80, ''High Risk'') \<and>
   calculate_bite_risk_score
     (collect_responses ''Attacking/Lunging'' ''Relaxed (wagging tail, soft ears)''
        ''Soft/Avoidant'' ''Not territorial'' ''Frequent attacks'' ''Friendly approach''
        ''No guarding'' ''Actively defends space'' ''Appears healthy'' ''With one other dog'')
     = Inr (81, ''Critical Risk'')"
  using calculate_score_buckets
    [of "collect_responses ''Friendly/Calm'' ''Tense (stiff body, raised hackles)''
        ''Soft/Avoidant'' ''Not territorial'' ''Never aggressive'' ''Friendly approach''
        ''No guarding'' ''Comfortable with proximity'' ''Appears healthy'' ''Alone''"]
  by (simp add: collect_responses_def hashable_answers_def calculate_bite_risk_score_def
      answer_weight_def question_table_def score_map_def)

text \<open>
  Claim C3. For every response mapping the score is the sum, over the entries of the
  mapping, of the weight the table assigns to the (question, option) pair, a pair outside
  the table counting 0; the score is an integer and never negative; and the level is a
  monotone function of the score alone: equal scores give equal levels, and a higher
  score never gives a lower-ranked level.
\<close>

theorem score_is_table_sum:
  assumes "hashable_answers rs" and "hashable_answers rs'"
  shows "\<exists>score level score' level'.
           calculate_bite_risk_score rs = Inr (score, level) \<and>
           calculate_bite_risk_score rs' = Inr (score', level') \<and>
           score = (\<Sum>(q, a)\<leftarrow>rs. table_weight q a) \<and>
           0 \<le> score \<and>
           (score = score' \<longrightarrow> level = level') \<and>
           (score \<le> score' \<longrightarrow> level_rank level \<le> level_rank level')"
  using calculate_hashable [OF assms(1)] calculate_hashable [OF assms(2)]
  by (simp add: sum_table_weight_nonneg level_rank_mono)

theorem score_is_table_sum_witness:
  "hashable_answers lowest_weighted_responses \<and> hashable_answers end_to_end \<and>
   calculate_bite_risk_score lowest_weighted_responses = Inr (3, ''Low Risk'') \<and>
   calculate_bite_risk_score end_to_end = Inr (193, ''Critical Risk'') \<and>
   (\<Sum>(q, a)\<leftarrow>lowest_weighted_responses. table_weight q a) = 3 \<and>
   level_rank ''Low Risk'' \<le> level_rank ''Critical Risk''"
  using score_is_table_sum [OF lowest_hashable end_to_end_hashable]
  by (simp add: lowest_hashable end_to_end_hashable lowest_score end_to_end_score)


section \<open>Replacing one answer\<close>

lemma sum_list_map_update:
  fixes f :: "'a \<Rightarrow> int"
  shows "i < length xs \<Longrightarrow> (\<Sum>x\<leftarrow>xs[i := y]. f x) = (\<Sum>x\<leftarrow>xs. f x) - f (xs ! i) + f y"
proof (induction xs arbitrary: i)
  case Nil
  then show ?case by simp
next
  case (Cons x xs)
  then show ?case by (cases i) simp_all
qed

lemma hashable_answers_update:
  "hashable_answers rs \<Longrightarrow> hashable a \<Longrightarrow> hashable_answers (rs[i := (q, a)])"
  unfolding hashable_answers_def list_all_iff
  by (auto dest!: subsetD [OF set_update_subset_insert])

lemma positive_weight_hashable: "0 < table_weight q a \<Longrightarrow> hashable a"
  by (cases a) (simp_all add: table_weight_def)

text \<open>
  Claim C4. If two response mappings are the same except that the second answers one
  question with an option of strictly higher weight in that question's table, then the
  score of the second is at least the score of the first.
\<close>

theorem score_monotone:
  assumes "hashable_answers r1" and "i < length r1" and "r1 ! i = (q, a)"
    and "table_weight q a < table_weight q a'"
    and "r2 = r1[i := (q, a')]"
  shows "\<exists>s1 l1 s2 l2. calculate_bite_risk_score r1 = Inr (s1, l1) \<and>
           calculate_bite_risk_score r2 = Inr (s2, l2) \<and> s1 \<le> s2"
proof -
  have "0 < table_weight q a'"
    using assms(4) table_weight_range [of q a] by linarith
  then have "hashable a'" by (rule positive_weight_hashable)
  then have h2: "hashable_answers r2"
    using assms(1,5) by (simp add: hashable_answers_update)
  have "(\<Sum>(q, a)\<leftarrow>r2. table_weight q a)
      = (\<Sum>(q, a)\<leftarrow>r1. table_weight q a) - table_weight q a + table_weight q a'"
    using assms(2,3,5) by (simp add: sum_list_map_update)
  then have "(\<Sum>(q, a)\<leftarrow>r1. table_weight q a) \<le> (\<Sum>(q, a)\<leftarrow>r2. table_weight q a)"
    using assms(4) by linarith
  then show ?thesis
    using calculate_hashable [OF assms(1)] calculate_hashable [OF h2] by simp
qed

text \<open>From "Friendly/Calm" (0) to "Defensive" (10) on the aggression question: 3 becomes 13.\<close>

theorem score_monotone_witness:
  "hashable_answers lowest_weighted_responses \<and>
   0 < length lowest_weighted_responses \<and>
   lowest_weighted_responses ! 0 = (''aggression'', PStr ''Friendly/Calm'') \<and>
   table_weight ''aggression'' (PStr ''Friendly/Calm'')
     < table_weight ''aggression'' (PStr ''Defensive'') \<and>
   calculate_bite_risk_score lowest_weighted_responses = Inr (3, ''Low Risk'') \<and>
   calculate_bite_risk_score (lowest_weighted_responses[0 := (''aggression'', PStr ''Defensive'')])
     = Inr (13, ''Low Risk'')"
proof -
  have w: "table_weight ''aggression'' (PStr ''Friendly/Calm'')
             < table_weight ''aggression'' (PStr ''Defensive'')"
    by (simp add: table_weight_def score_map_def)
  have n: "0 < length lowest_weighted_responses"
    and z: "lowest_weighted_responses ! 0 = (''aggression'', PStr ''Friendly/Calm'')"
    by (simp_all add: lowest_weighted_responses_eq collect_responses_def)
  have "calculate_bite_risk_score
          (lowest_weighted_responses[0 := (''aggression'', PStr ''Defensive'')])
        = Inr (13, ''Low Risk'')"
    by (simp add: lowest_weighted_responses_eq collect_responses_def
        calculate_bite_risk_score_def answer_weight_def question_table_def score_map_def)
  then show ?thesis
    using score_monotone [OF lowest_hashable n z w refl] w n z lowest_hashable lowest_score
    by simp
qed


section \<open>The largest score\<close>

lemma fold_max_ge_start: "(b::int) \<le> fold max xs b"
proof (induction xs arbitrary: b)
  case Nil
  show ?case by simp
next
  case (Cons x xs)
  have "b \<le> max x b" by simp
  also have "\<dots> \<le> fold max xs (max x b)" by (rule Cons.IH)
  finally show ?case by simp
qed

lemma fold_max_ge_elem: "x \<in> set xs \<Longrightarrow> (x::int) \<le> fold max xs b"
proof (induction xs arbitrary: b)
  case Nil
  then show ?case by simp
next
  case (Cons y ys)
  show ?case
  proof (cases "x = y")
    case True
    have "x \<le> max y b" using True by simp
    also have "\<dots> \<le> fold max ys (max y b)" by (rule fold_max_ge_start)
    finally show ?thesis by simp
  next
    case False
    with Cons.prems have "x \<in> set ys" by simp
    then show ?thesis by (simp add: Cons.IH)
  qed
qed

lemma question_bound_nonneg: "0 \<le> question_bound q"
  unfolding question_bound_def max_weight_def by (rule fold_max_ge_start)

lemma table_weight_le_bound: "table_weight q a \<le> question_bound q"
proof (cases "\<exists>opt. a = PStr opt")
  case False
  then show ?thesis by (simp add: table_weight_not_str question_bound_nonneg)
next
  case True
  then obtain opt where a: "a = PStr opt" by blast
  show ?thesis
  proof (cases "map_of (question_table q) opt")
    case None
    then show ?thesis by (simp add: a table_weight_PStr question_bound_nonneg)
  next
    case (Some w)
    then have "(opt, w) \<in> set (question_table q)" by (rule map_of_SomeD)
    then have "w \<in> set (map snd (question_table q))" by force
    then have "w \<le> question_bound q"
      unfolding question_bound_def max_weight_def by (rule fold_max_ge_elem)
    then show ?thesis by (simp add: a table_weight_PStr Some)
  qed
qed

lemma question_bound_unknown: "q \<notin> set (map fst score_map) \<Longrightarrow> question_bound q = 0"
proof -
  assume "q \<notin> set (map fst score_map)"
  then have "map_of score_map q = None" by (simp add: map_of_eq_None_iff)
  then show ?thesis by (simp add: question_bound_def question_table_def max_weight_def)
qed

lemma max_weights:
  "map (\<lambda>(q, t). max_weight t) score_map = [30, 25, 20, 20, 30, 25, 20, 18, 25, 15]"
  by (simp add: score_map_def max_weight_def)

lemma score_map_keys:
  "map fst score_map =
     [''aggression'', ''body_language'', ''eye_contact'', ''territorial'', ''past_behavior'',
      ''approach'', ''food_guarding'', ''space'', ''health'', ''pack'']"
  by (simp add: score_map_def)

lemma distinct_score_map_keys: "distinct (map fst score_map)"
  by (simp add: score_map_keys)

lemma sum_question_bounds: "(\<Sum>q\<leftarrow>map fst score_map. question_bound q) = 228"
  by (simp add: score_map_keys)
    (simp add: question_bound_def question_table_def score_map_def max_weight_def)

lemma sum_bounds_distinct:
  assumes "distinct qs"
  shows "(\<Sum>q\<leftarrow>qs. question_bound q) \<le> 228"
proof -
  let ?K = "set (map fst score_map)"
  have "(\<Sum>q\<leftarrow>qs. question_bound q) = sum question_bound (set qs)"
    using assms by (rule sum_list_distinct_conv_sum_set)
  also have "\<dots> = sum question_bound (set qs \<inter> ?K)"
    by (rule sum.mono_neutral_right) (auto simp: question_bound_unknown)
  also have "\<dots> \<le> sum question_bound ?K"
    by (rule sum_mono2) (auto simp: question_bound_nonneg)
  also have "\<dots> = (\<Sum>q\<leftarrow>map fst score_map. question_bound q)"
    using distinct_score_map_keys by (rule sum.distinct_set_conv_list)
  also have "\<dots> = 228" by (rule sum_question_bounds)
  finally show ?thesis .
qed

lemma sum_table_weight_le_bounds:
  "(\<Sum>(q, a)\<leftarrow>rs. table_weight q a) \<le> (\<Sum>q\<leftarrow>map fst rs. question_bound q)"
  by (induction rs) (auto simp: add_mono table_weight_le_bound)

text \<open>
  Claim C10. For every response mapping (a dict, so with at most one answer per question
  key) the score is at most 228, the sum of the largest weights of the ten tables, and
  every single answer contributes a weight between 0 and 30.
\<close>

theorem score_upper_bound:
  assumes "hashable_answers rs" and "distinct (map fst rs)"
  shows "\<exists>score level. calculate_bite_risk_score rs = Inr (score, level) \<and> score \<le> 228 \<and>
           (\<Sum>(q, t)\<leftarrow>score_map. max_weight t) = 30 + 25 + 20 + 20 + 30 + 25 + 20 + 18 + 25 + 15 \<and>
           (\<forall>(q, a)\<in>set rs. \<exists>w. answer_weight q a = Inr w \<and> 0 \<le> w \<and> w \<le> 30)"
proof -
  have "(\<Sum>(q, a)\<leftarrow>rs. table_weight q a) \<le> 228"
    using sum_table_weight_le_bounds [of rs] sum_bounds_distinct [OF assms(2)] by linarith
  moreover have "(\<Sum>(q, t)\<leftarrow>score_map. max_weight t)
      = 30 + 25 + 20 + 20 + 30 + 25 + 20 + 18 + 25 + 15"
    by (simp add: max_weights)
  moreover have "\<forall>(q, a)\<in>set rs. \<exists>w. answer_weight q a = Inr w \<and> 0 \<le> w \<and> w \<le> 30"
    using assms(1) unfolding hashable_answers_def list_all_iff
    by (auto simp: answer_weight_hashable table_weight_range)
  ultimately show ?thesis
    using calculate_hashable [OF assms(1)] by simp
qed

text \<open>The mapping that selects the heaviest option of every question reaches 228.\<close>

theorem score_upper_bound_witness:
  "hashable_answers
     (collect_responses ''Attacking/Lunging'' ''Showing teeth/Snarling''
        ''Fixed stare with tension'' ''Highly territorial (charging)'' ''Frequent attacks''
        ''Charging/Lunging'' ''Severe (snaps/bites near food)'' ''Actively defends space''
        ''Signs of rabies/severe illness'' ''Large pack (4+)'') \<and>
   distinct (map fst
     (collect_responses ''Attacking/Lunging'' ''Showing teeth/Snarling''
        ''Fixed stare with tension'' ''Highly territorial (charging)'' ''Frequent attacks''
        ''Charging/Lunging'' ''Severe (snaps/bites near food)'' ''Actively defends space''
        ''Signs of rabies/severe illness'' ''Large pack (4+)'')) \<and>
   calculate_bite_risk_score
     (collect_responses ''Attacking/Lunging'' ''Showing teeth/Snarling''
        ''Fixed stare with tension'' ''Highly territorial (charging)'' ''Frequent attacks''
        ''Charging/Lunging'' ''Severe (snaps/bites near food)'' ''Actively defends space''
        ''Signs of rabies/severe illness'' ''Large pack (4+)'')
     = Inr (228, ''Critical Risk'')"
  using score_upper_bound
    [of "collect_responses ''Attacking/Lunging'' ''Showing teeth/Snarling''
        ''Fixed stare with tension'' ''Highly territorial (charging)'' ''Frequent attacks''
        ''Charging/Lunging'' ''Severe (snaps/bites near food)'' ''Actively defends space''
        ''Signs of rabies/severe illness'' ''Large pack (4+)''"]
  by (simp add: collect_responses_def hashable_answers_def calculate_bite_risk_score_def
      answer_weight_def question_table_def score_map_def)


section \<open>Recommendations\<close>

lemma distinct_advisories: "distinct (map (\<lambda>(q, triggers, advisory). advisory) trigger_rules)"
  by (simp add: trigger_rules_def rec_aggression_def rec_territorial_def rec_approach_def
      rec_health_def rec_pack_def rec_food_guarding_def)

lemma append_if: "(if c then xs @ [a] else xs) = xs @ (if c then [a] else [])"
  by simp

lemma filter_Cons_append: "filter P (x # xs) = (if P x then [x] else []) @ filter P xs"
  by simp

lemma map_if_single: "map f (if c then [x] else []) = (if c then [f x] else [])"
  by simp

lemma recommendations_eq_fired: "generate_safety_recommendations rs = fired_advisories rs"
  by (simp add: generate_safety_recommendations_def fired_advisories_def trigger_rules_def
      rule_fires_def is_in_def append_if filter_Cons_append map_if_single
      del: filter.simps(2) split del: if_split cong: if_cong)

lemma recommendations_depend_on_map:
  "map_of rs = map_of rs' \<Longrightarrow>
   generate_safety_recommendations rs = generate_safety_recommendations rs'"
  by (simp add: generate_safety_recommendations_def responses_get_def)

text \<open>
  Claim C6. \<^verbatim>\<open>generate_safety_recommendations\<close> is a function of the response mapping
  that evaluates its rules in the order aggression, territorial, approach, health, pack,
  food-guarding: the result is the list of the advisory texts of exactly the rules whose
  trigger option is selected, in that order, without duplicates, and it is empty when no
  rule fires.
\<close>

theorem recommendations_fixed_order:
  "generate_safety_recommendations rs = fired_advisories rs \<and>
   map fst trigger_rules =
     [''aggression'', ''territorial'', ''approach'', ''health'', ''pack'', ''food_guarding''] \<and>
   distinct (generate_safety_recommendations rs) \<and>
   ((\<forall>rule\<in>set trigger_rules. \<not> rule_fires rs rule)
      \<longrightarrow> generate_safety_recommendations rs = [])"
proof -
  have "distinct (fired_advisories rs)"
    unfolding fired_advisories_def using distinct_advisories by (rule distinct_map_filter)
  moreover have "(\<forall>rule\<in>set trigger_rules. \<not> rule_fires rs rule) \<longrightarrow> fired_advisories rs = []"
    by (simp add: fired_advisories_def filter_empty_conv)
  moreover have "map fst trigger_rules =
     [''aggression'', ''territorial'', ''approach'', ''health'', ''pack'', ''food_guarding'']"
    by (simp add: trigger_rules_def)
  ultimately show ?thesis by (simp add: recommendations_eq_fired)
qed

text \<open>
  No rule fires on the lowest-weighted answers; on the mapping below the rules of
  aggression, health, pack and food guarding fire, and the texts come in that order.
\<close>

theorem recommendations_fixed_order_witness:
  "filter (rule_fires lowest_weighted_responses) trigger_rules = [] \<and>
   generate_safety_recommendations lowest_weighted_responses = [] \<and>
   generate_safety_recommendations
     [(''food_guarding'', PStr ''Moderate (growls near food)''),
      (''pack'', PStr ''Large pack (4+)''),
      (''health'', PStr ''Signs of rabies/severe illness''),
      (''territorial'', PStr ''Mild (barking)''),
      (''aggression'', PStr ''Aggressive/Growling'')]
     = [rec_aggression, rec_health, rec_pack, rec_food_guarding]"
proof -
  have none: "filter (rule_fires lowest_weighted_responses) trigger_rules = []"
    by (simp add: lowest_weighted_responses_eq collect_responses_def trigger_rules_def
        rule_fires_def responses_get_def is_in_def)
  then have "\<forall>rule\<in>set trigger_rules. \<not> rule_fires lowest_weighted_responses rule"
    by (simp add: filter_empty_conv)
  with recommendations_fixed_order [of lowest_weighted_responses]
  have "generate_safety_recommendations lowest_weighted_responses = []" by blast
  moreover have "generate_safety_recommendations
     [(''food_guarding'', PStr ''Moderate (growls near food)''),
      (''pack'', PStr ''Large pack (4+)''),
      (''health'', PStr ''Signs of rabies/severe illness''),
      (''territorial'', PStr ''Mild (barking)''),
      (''aggression'', PStr ''Aggressive/Growling'')]
     = [rec_aggression, rec_health, rec_pack, rec_food_guarding]"
    by (simp add: generate_safety_recommendations_def responses_get_def is_in_def)
  ultimately show ?thesis using none by simp
qed


section \<open>The two scenarios\<close>

lemma lowest_minimal:
  "list_all (\<lambda>(q, t). case t of [] \<Rightarrow> False
       | x # xs \<Rightarrow> list_all (\<lambda>(opt, w). snd (lowest_from x xs) \<le> w) t) score_map"
  by (simp add: score_map_def)

lemma sum_same_items:
  fixes f :: "'a \<Rightarrow> int"
  assumes "distinct xs" and "distinct ys" and "set xs = set ys"
  shows "(\<Sum>x\<leftarrow>xs. f x) = (\<Sum>x\<leftarrow>ys. f x)"
  using assms by (simp add: sum_list_distinct_conv_sum_set)

lemma lowest_distinct_keys: "distinct (map fst lowest_weighted_responses)"
  by (simp add: lowest_weighted_responses_eq collect_responses_def)

lemma lowest_sum: "(\<Sum>(q, a)\<leftarrow>lowest_weighted_responses. table_weight q a) = 3"
  using calculate_hashable [OF lowest_hashable] lowest_score by simp

text \<open>
  Claim C7 says that the mapping which answers each of the ten questions with its
  lowest-weighted option scores 0. It does not: every option of the pack question has a
  positive weight, the least being 3 for "With one other dog" ("Alone", the first option
  listed, weighs 5).
\<close>

theorem lowest_weighted_score_not_zero:
  "calculate_bite_risk_score
     (collect_responses ''Friendly/Calm'' ''Relaxed (wagging tail, soft ears)'' ''Soft/Avoidant''
        ''Not territorial'' ''Never aggressive'' ''Friendly approach'' ''No guarding''
        ''Comfortable with proximity'' ''Appears healthy'' ''With one other dog'')
     = Inr (3, ''Low Risk'') \<and>
   calculate_bite_risk_score
     (collect_responses ''Friendly/Calm'' ''Relaxed (wagging tail, soft ears)'' ''Soft/Avoidant''
        ''Not territorial'' ''Never aggressive'' ''Friendly approach'' ''No guarding''
        ''Comfortable with proximity'' ''Appears healthy'' ''With one other dog'')
     \<noteq> Inr (0, ''Low Risk'') \<and>
   calculate_bite_risk_score
     (collect_responses ''Friendly/Calm'' ''Relaxed (wagging tail, soft ears)'' ''Soft/Avoidant''
        ''Not territorial'' ''Never aggressive'' ''Friendly approach'' ''No guarding''
        ''Comfortable with proximity'' ''Appears healthy'' ''Alone'')
     = Inr (5, ''Low Risk'')"
  by (simp add: collect_responses_def calculate_bite_risk_score_def answer_weight_def
      question_table_def score_map_def)

text \<open>
  Claim C7, amended. A response mapping in which every one of the ten questions is
  answered with its lowest-weighted option has score 3, level "Low Risk" and no
  recommendations, in whatever order the mapping holds its entries.
\<close>

theorem lowest_weighted_scenario:
  assumes "distinct (map fst rs)" and "set rs = set lowest_weighted_responses"
  shows "calculate_bite_risk_score rs = Inr (3, ''Low Risk'') \<and>
         generate_safety_recommendations rs = [] \<and>
         list_all (\<lambda>(q, t). case t of [] \<Rightarrow> False
            | x # xs \<Rightarrow> list_all (\<lambda>(opt, w). snd (lowest_from x xs) \<le> w) t) score_map"
proof -
  have h: "hashable_answers rs"
    using lowest_hashable assms(2) by (simp add: hashable_answers_def list_all_iff)
  have d: "distinct rs" using assms(1) by (rule distinct_map [THEN iffD1, THEN conjunct1])
  have d': "distinct lowest_weighted_responses"
    using lowest_distinct_keys by (rule distinct_map [THEN iffD1, THEN conjunct1])
  have "(\<Sum>(q, a)\<leftarrow>rs. table_weight q a) = 3"
    using sum_same_items [OF d d' assms(2)] lowest_sum by simp
  then have "calculate_bite_risk_score rs = Inr (3, ''Low Risk'')"
    using calculate_hashable [OF h] by (simp add: level_of_def)
  moreover have "map_of rs = map_of lowest_weighted_responses"
    using assms lowest_distinct_keys by (simp add: map_of_inject_set)
  then have "generate_safety_recommendations rs = []"
    using recommendations_depend_on_map lowest_recommendations by metis
  ultimately show ?thesis using lowest_minimal by simp
qed

theorem lowest_weighted_scenario_witness:
  "distinct (map fst (rev lowest_weighted_responses)) \<and>
   set (rev lowest_weighted_responses) = set lowest_weighted_responses \<and>
   rev lowest_weighted_responses
     = [(''pack'', PStr ''With one other dog''), (''health'', PStr ''Appears healthy''),
        (''space'', PStr ''Comfortable with proximity''), (''food_guarding'', PStr ''No guarding''),
        (''approach'', PStr ''Friendly approach''), (''past_behavior'', PStr ''Never aggressive''),
        (''territorial'', PStr ''Not territorial''), (''eye_contact'', PStr ''Soft/Avoidant''),
        (''body_language'', PStr ''Relaxed (wagging tail, soft ears)''),
        (''aggression'', PStr ''Friendly/Calm'')] \<and>
   calculate_bite_risk_score (rev lowest_weighted_responses) = Inr (3, ''Low Risk'') \<and>
   generate_safety_recommendations (rev lowest_weighted_responses) = []"
proof -
  have d: "distinct (map fst (rev lowest_weighted_responses))"
    using lowest_distinct_keys by (simp add: rev_map [symmetric])
  have s: "set (rev lowest_weighted_responses) = set lowest_weighted_responses" by simp
  have "rev lowest_weighted_responses
     = [(''pack'', PStr ''With one other dog''), (''health'', PStr ''Appears healthy''),
        (''space'', PStr ''Comfortable with proximity''), (''food_guarding'', PStr ''No guarding''),
        (''approach'', PStr ''Friendly approach''), (''past_behavior'', PStr ''Never aggressive''),
        (''territorial'', PStr ''Not territorial''), (''eye_contact'', PStr ''Soft/Avoidant''),
        (''body_language'', PStr ''Relaxed (wagging tail, soft ears)''),
        (''aggression'', PStr ''Friendly/Calm'')]"
    by (simp add: lowest_weighted_responses_eq collect_responses_def)
  then show ?thesis using lowest_weighted_scenario [OF d s] d by simp
qed

text \<open>
  Claim C8. The mapping of the end-to-end example scores 193, which is "Critical Risk",
  and its recommendations are exactly the four texts of the aggression, territorial,
  approach and food-guarding rules; the rabies warning of the health rule is not among
  them.
\<close>

theorem end_to_end_scenario:
  "end_to_end =
     [(''aggression'', PStr ''Attacking/Lunging''),
      (''body_language'', PStr ''Showing teeth/Snarling''),
      (''eye_contact'', PStr ''Fixed stare with tension''),
      (''territorial'', PStr ''Highly territorial (charging)''),
      (''past_behavior'', PStr ''Frequent attacks''),
      (''approach'', PStr ''Charging/Lunging''),
      (''food_guarding'', PStr ''Severe (snaps/bites near food)''),
      (''space'', PStr ''Actively defends space''),
      (''health'', PStr ''Appears healthy''),
      (''pack'', PStr ''Alone'')] \<and>
   calculate_bite_risk_score end_to_end = Inr (193, ''Critical Risk'') \<and>
   generate_safety_recommendations end_to_end
     = [rec_aggression, rec_territorial, rec_approach, rec_food_guarding] \<and>
   length (generate_safety_recommendations end_to_end) = 4 \<and>
   rec_health \<notin> set (generate_safety_recommendations end_to_end)"
proof -
  have "rec_health \<notin> set [rec_aggression, rec_territorial, rec_approach, rec_food_guarding]"
    by (simp add: rec_aggression_def rec_territorial_def rec_approach_def rec_health_def
        rec_food_guarding_def)
  then show ?thesis
    by (simp add: end_to_end_score end_to_end_recommendations)
      (simp add: end_to_end_def collect_responses_def)
qed


section \<open>The document store\<close>








lemma read_present:
  "fs (file_path key) = Present f \<Longrightarrow>
   read fs key dflt =
     (case load_file f of
        Inr data \<Rightarrow>
          (if dflt = PNone
           then Inr (if isinstance data TList then data else PList [])
           else Inr (if isinstance data (type_of dflt) then data else dflt))
      | Inl e \<Rightarrow> Inr (if dflt \<noteq> PNone then dflt else PList []))"
  by (simp add: read_def path_exists_def open_and_load_def)

lemma read_missing:
  "fs (file_path key) = Missing \<Longrightarrow>
   read fs key dflt = Inr (if dflt \<noteq> PNone then dflt else PList [])"
  by (simp add: read_def path_exists_def)

lemma read_stat_error: "fs (file_path key) = Stat_error \<Longrightarrow> read fs key dflt = Inl OSError"
  by (simp add: read_def path_exists_def)

text \<open>
  What is outside these values does not come back as it was: a tuple returns as a list,
  an \<^verbatim>\<open>int\<close> or \<^verbatim>\<open>float\<close> key as a \<^verbatim>\<open>str\<close> key, any other object as its text, and the
  two surrogates U+D83D U+DE00 as the one character U+1F600.
\<close>

lemma lossy_round_trips:
  "to_json (PList [PTuple [PInt 0, PInt 0]]) = Inr (JArr [JArr [JInt 0, JInt 0]])"
  "of_json (JArr [JArr [JInt 0, JInt 0]]) = PList [PList [PInt 0, PInt 0]]"
  "to_json (PDict [(PFloat (Float_finite ''1.5''), PStr ''a'')]) = Inr (JObj [(''1.5'', JStr ''a'')])"
  "of_json (JObj [(''1.5'', JStr ''a'')]) = PDict [(PStr ''1.5'', PStr ''a'')]"
  "to_json (PList [PObj ''2024-01-01'']) = Inr (JArr [JStr ''2024-01-01''])"
  "to_json (PStr [CHR 0xED, CHR 0xA0, CHR 0xBD, CHR 0xED, CHR 0xB8, CHR 0x80])
     = Inr (JStr [CHR 0xF0, CHR 0x9F, CHR 0x98, CHR 0x80])"
  by (simp_all add: surrogate_pair_def joined_def byte_def)




text \<open>
  Claim C9. With \<^verbatim>\<open>default=None\<close>, \<^verbatim>\<open>read\<close> behaves as if a list were expected: it
  returns \<^verbatim>\<open>[]\<close> when the file is missing or cannot be parsed, the parsed value when
  that is a list, and \<^verbatim>\<open>[]\<close> when the file parses to anything else.
\<close>

theorem read_default_none:
  "(fs (file_path key) = Missing \<longrightarrow> read fs key PNone = Inr (PList [])) \<and>
   (\<forall>f e. fs (file_path key) = Present f \<and> load_file f = Inl e
      \<longrightarrow> read fs key PNone = Inr (PList [])) \<and>
   (\<forall>f data. fs (file_path key) = Present f \<and> load_file f = Inr data \<and> type_of data = TList
      \<longrightarrow> read fs key PNone = Inr data) \<and>
   (\<forall>f data. fs (file_path key) = Present f \<and> load_file f = Inr data \<and> type_of data \<noteq> TList
      \<longrightarrow> read fs key PNone = Inr (PList []))"
  by (simp add: read_missing read_present isinstance_def)

theorem read_default_none_witness:
  "read no_files ''sos'' PNone = Inr (PList []) \<and>
   read (no_files(file_path ''sos'' := Present Invalid_text)) ''sos'' PNone = Inr (PList []) \<and>
   read (no_files(file_path ''sos'' := Present (Json_text (JArr [JInt 1, JStr ''x''])))) ''sos''
        PNone
     = Inr (PList [PInt 1, PStr ''x'']) \<and>
   read (no_files(file_path ''sos'' := Present (Json_text (JObj [(''a'', JInt 1)])))) ''sos''
        PNone
     = Inr (PList [])"
  using read_default_none [of no_files "''sos''"]
    read_default_none [of "no_files(file_path ''sos'' := Present Invalid_text)" "''sos''"]
    read_default_none
      [of "no_files(file_path ''sos'' := Present (Json_text (JArr [JInt 1, JStr ''x''])))"
          "''sos''"]
    read_default_none
      [of "no_files(file_path ''sos'' := Present (Json_text (JObj [(''a'', JInt 1)])))"
          "''sos''"]
  by (simp add: no_files_def)


section \<open>Failing soft\<close>

lemma table_weight_absent: "\<not> in_table q a \<Longrightarrow> table_weight q a = 0"
  by (cases a) (simp_all add: in_table_def table_weight_PStr, simp_all add: table_weight_def)

lemma hashable_answers_append:
  "hashable_answers (rs @ [(q, a)]) = (hashable_answers rs \<and> hashable a)"
  by (simp add: hashable_answers_def)

text \<open>
  Where the existence test succeeds, \<^verbatim>\<open>read\<close> returns a value, and for a default that is
  a list or a dict it returns the default when there is no file, when the file cannot be
  opened or parsed, and when the type of the parsed value differs from the type of the
  default.
\<close>

lemma read_fail_soft:
  assumes "type_of dflt = TList \<or> type_of dflt = TDict"
  shows "(fs (file_path key) \<noteq> Stat_error \<longrightarrow> (\<exists>v. read fs key dflt = Inr v)) \<and>
         (fs (file_path key) = Missing \<longrightarrow> read fs key dflt = Inr dflt) \<and>
         (\<forall>f e. fs (file_path key) = Present f \<and> load_file f = Inl e
            \<longrightarrow> read fs key dflt = Inr dflt) \<and>
         (\<forall>f data. fs (file_path key) = Present f \<and> load_file f = Inr data \<and>
              type_of data \<noteq> type_of dflt
            \<longrightarrow> read fs key dflt = Inr dflt)"
proof -
  have ne: "dflt \<noteq> PNone" using assms by auto
  have "fs (file_path key) \<noteq> Stat_error \<longrightarrow> (\<exists>v. read fs key dflt = Inr v)"
    by (cases "fs (file_path key)") (simp_all add: read_missing read_present split: sum.splits)
  moreover have "fs (file_path key) = Missing \<longrightarrow> read fs key dflt = Inr dflt"
    using ne by (simp add: read_missing)
  moreover have "\<forall>f e. fs (file_path key) = Present f \<and> load_file f = Inl e
      \<longrightarrow> read fs key dflt = Inr dflt"
    using ne by (simp add: read_present)
  moreover have "\<forall>f data. fs (file_path key) = Present f \<and> load_file f = Inr data \<and>
      type_of data \<noteq> type_of dflt \<longrightarrow> read fs key dflt = Inr dflt"
    using ne assms by (auto simp: read_present isinstance_def)
  ultimately show ?thesis by blast
qed

text \<open>
  For a response mapping whose answers are strings (or other hashable values) the
  scoring returns a result, and an entry whose question or option is not in the table
  weighs 0 and leaves the result as it is.
\<close>

lemma score_fail_soft:
  assumes "hashable_answers rs"
  shows "(\<exists>score level. calculate_bite_risk_score rs = Inr (score, level)) \<and>
         (\<forall>q opt. \<not> in_table q (PStr opt)
            \<longrightarrow> answer_weight q (PStr opt) = Inr 0 \<and>
                calculate_bite_risk_score (rs @ [(q, PStr opt)]) = calculate_bite_risk_score rs)"
proof -
  have c1: "\<exists>score level. calculate_bite_risk_score rs = Inr (score, level)"
    using calculate_hashable [OF assms] by simp
  have c2: "\<forall>q opt. \<not> in_table q (PStr opt)
      \<longrightarrow> answer_weight q (PStr opt) = Inr 0 \<and>
          calculate_bite_risk_score (rs @ [(q, PStr opt)]) = calculate_bite_risk_score rs"
  proof (intro allI impI)
    fix q opt
    assume absent: "\<not> in_table q (PStr opt)"
    have h: "hashable_answers (rs @ [(q, PStr opt)])"
      using assms by (simp add: hashable_answers_append)
    have w: "table_weight q (PStr opt) = 0" using absent by (rule table_weight_absent)
    have "answer_weight q (PStr opt) = Inr 0"
      using answer_weight_hashable [of "PStr opt" q] w by simp
    moreover have
      "calculate_bite_risk_score (rs @ [(q, PStr opt)]) = calculate_bite_risk_score rs"
      using calculate_hashable [OF h] calculate_hashable [OF assms] w by simp
    ultimately show "answer_weight q (PStr opt) = Inr 0 \<and>
      calculate_bite_risk_score (rs @ [(q, PStr opt)]) = calculate_bite_risk_score rs"
      by simp
  qed
  from c1 c2 show ?thesis by blast
qed

text \<open>
  Claim C2 says that \<^verbatim>\<open>read\<close> and the scoring never raise an error to the caller. The
  code of \<^verbatim>\<open>read\<close> catches every error of opening and parsing, but its existence test
  stands before the \<^verbatim>\<open>try\<close>: where \<^verbatim>\<open>os.stat\<close> fails, as it does for a key of 300
  characters, whose file name no common file system allows, \<^verbatim>\<open>read\<close> raises
  \<^verbatim>\<open>OSError\<close> instead of returning the default.
\<close>

theorem read_raises_when_exists_fails:
  "read (no_files(file_path (replicate 300 (CHR ''a'')) := Stat_error))
        (replicate 300 (CHR ''a'')) (PList [])
     = Inl OSError"
  by (simp add: read_stat_error)

end
